theory Spec2Isabelle
  imports Complex_Main
begin

section \<open>Conventions of the embedding\<close>

text \<open>
  The development models two modules of the backend:
  \<^verbatim>\<open>routes/tokenization_categories.py\<close> (the category tables and the classifier
  \<^verbatim>\<open>enhanced_auto_detect_category\<close>) and \<^verbatim>\<open>routes/specialized_tokenization.py\<close>
  (the class \<^verbatim>\<open>SpecializedTokenizer\<close> and \<^verbatim>\<open>create_specialized_tokenization\<close>).

  \<^item> A Python \<^verbatim>\<open>str\<close> is a \<^typ>\<open>string\<close> whose characters are the code points
    below 256; \<^verbatim>\<open>lower\<close> and \<^verbatim>\<open>strip\<close> act on them as Python does on
    these code points.
  \<^item> A Python \<^verbatim>\<open>float\<close> is an exact rational number (\<^typ>\<open>rat\<close>): the decimal
    literals of the source are the fractions they denote and no binary rounding
    happens. Only \<^verbatim>\<open>round(x, n)\<close> rounds, half to even.
  \<^item> A \<^verbatim>\<open>dict\<close> is an association list in insertion order.
  \<^item> The strings of the classifier's key \<^verbatim>\<open>'method'\<close> (the field \<open>detection_method\<close>)
    are the constructors of a datatype with the same names; the label \<^verbatim>\<open>'enhanced_keyword_analysis'\<close> of the source is the
    one the specification calls \<open>keyword_analysis\<close>.
  \<^item> \<^verbatim>\<open>random.random()\<close> and \<^verbatim>\<open>time.time()\<close> are inputs: a tokenizer receives the
    sequence \<open>rnd\<close> of the numbers the generator hands out during the call
    (\<open>rnd k\<close> is the result of the \<open>k\<close>-th draw) and the clock reading \<open>now\<close>.
\<close>

section \<open>String primitives\<close>

text \<open>A subscript \<^verbatim>\<open>d[k]\<close> on a dict without the key \<open>k\<close> raises \<^verbatim>\<open>KeyError\<close>.\<close>

datatype py_error = KeyError string

definition lower_char :: "char \<Rightarrow> char" where
  "lower_char c =
     (let n = (of_char c :: nat)
      in if 65 \<le> n \<and> n \<le> 90 then char_of (n + 32)
         else if 192 \<le> n \<and> n \<le> 222 then (if n = 215 then c else char_of (n + 32))
         else c)"

definition lower :: "string \<Rightarrow> string" where
  "lower s = map lower_char s"

definition is_space :: "char \<Rightarrow> bool" where
  "is_space c = ((of_char c :: nat) \<in> {9, 10, 11, 12, 13, 28, 29, 30, 31, 32, 133, 160})"

definition strip :: "string \<Rightarrow> string" where
  "strip s = rev (dropWhile is_space (rev (dropWhile is_space s)))"

definition lstrip_dot :: "string \<Rightarrow> string" where
  "lstrip_dot s = dropWhile (\<lambda>c. c = CHR ''.'') s"

fun starts_with :: "string \<Rightarrow> string \<Rightarrow> bool" where
  "starts_with s [] = True"
| "starts_with [] (k # ks) = False"
| "starts_with (c # cs) (k # ks) = (c = k \<and> starts_with cs ks)"

text \<open>\<open>str_in k s\<close> is Python's \<^verbatim>\<open>k in s\<close> on strings: \<open>k\<close> occurs as a substring.\<close>

fun str_in :: "string \<Rightarrow> string \<Rightarrow> bool" where
  "str_in k [] = (k = [])"
| "str_in k (c # cs) = (starts_with (c # cs) k \<or> str_in k cs)"

section \<open>The category table\<close>

record rights_details =
  description :: string
  percentage :: int
  base_value :: rat

record category_data =
  cat_name :: string
  cat_description :: string
  file_types :: "string list"
  tokenization_structure :: "(string \<times> rights_details) list"

definition film_structure :: "(string \<times> rights_details) list" where
  "film_structure =
    [(''cinematography_rights'',
        \<lparr>description = ''Visual composition, camera work, and cinematographic elements'',
         percentage = 25, base_value = 60\<rparr>),
     (''audio_soundtrack_rights'',
        \<lparr>description = ''Original music, sound design, and audio production'',
         percentage = 20, base_value = 45\<rparr>),
     (''narrative_story_rights'',
        \<lparr>description = ''Plot, storyline, and narrative structure'',
         percentage = 20, base_value = 50\<rparr>),
     (''character_performance_rights'',
        \<lparr>description = ''Character development and performance elements'',
         percentage = 15, base_value = 40\<rparr>),
     (''production_design_rights'',
        \<lparr>description = ''Set design, costumes, and visual production elements'',
         percentage = 10, base_value = 35\<rparr>),
     (''distribution_licensing_rights'',
        \<lparr>description = ''Rights to distribute and license the film'',
         percentage = 10, base_value = 30\<rparr>)]"

definition animation_structure :: "(string \<times> rights_details) list" where
  "animation_structure =
    [(''animation_artistry_rights'',
        \<lparr>description = ''Animation techniques, style, and artistic execution'',
         percentage = 30, base_value = 55\<rparr>),
     (''character_design_rights'',
        \<lparr>description = ''Original character designs and visual development'',
         percentage = 25, base_value = 50\<rparr>),
     (''story_concept_rights'',
        \<lparr>description = ''Narrative concept and storytelling approach'',
         percentage = 20, base_value = 45\<rparr>),
     (''audio_design_rights'',
        \<lparr>description = ''Sound effects, music, and audio synchronization'',
         percentage = 15, base_value = 35\<rparr>),
     (''technical_innovation_rights'',
        \<lparr>description = ''Technical animation methods and innovations'',
         percentage = 10, base_value = 40\<rparr>)]"

definition screenplay_structure :: "(string \<times> rights_details) list" where
  "screenplay_structure =
    [(''dialogue_rights'',
        \<lparr>description = ''Original dialogue and character voice'',
         percentage = 30, base_value = 45\<rparr>),
     (''plot_structure_rights'',
        \<lparr>description = ''Story structure, plot development, and pacing'',
         percentage = 25, base_value = 50\<rparr>),
     (''character_development_rights'',
        \<lparr>description = ''Character arcs, personalities, and development'',
         percentage = 20, base_value = 40\<rparr>),
     (''scene_description_rights'',
        \<lparr>description = ''Scene setting, action descriptions, and visual elements'',
         percentage = 15, base_value = 35\<rparr>),
     (''adaptation_rights'',
        \<lparr>description = ''Rights to adapt the screenplay for different media'',
         percentage = 10, base_value = 55\<rparr>)]"

definition book_writing_structure :: "(string \<times> rights_details) list" where
  "book_writing_structure =
    [(''narrative_prose_rights'',
        \<lparr>description = ''Writing style, prose, and narrative voice'',
         percentage = 35, base_value = 50\<rparr>),
     (''plot_concept_rights'',
        \<lparr>description = ''Original plot, story concept, and structure'',
         percentage = 25, base_value = 45\<rparr>),
     (''character_creation_rights'',
        \<lparr>description = ''Original characters and character development'',
         percentage = 20, base_value = 40\<rparr>),
     (''world_building_rights'',
        \<lparr>description = ''Setting, world creation, and environmental details'',
         percentage = 10, base_value = 35\<rparr>),
     (''publishing_adaptation_rights'',
        \<lparr>description = ''Rights to publish and adapt in different formats'',
         percentage = 10, base_value = 60\<rparr>)]"

definition digital_art_structure :: "(string \<times> rights_details) list" where
  "digital_art_structure =
    [(''artistic_composition_rights'',
        \<lparr>description = ''Visual composition, color theory, and artistic style'',
         percentage = 40, base_value = 55\<rparr>),
     (''concept_originality_rights'',
        \<lparr>description = ''Original concept, theme, and creative vision'',
         percentage = 25, base_value = 50\<rparr>),
     (''technical_execution_rights'',
        \<lparr>description = ''Digital technique, skill, and technical innovation'',
         percentage = 20, base_value = 45\<rparr>),
     (''commercial_usage_rights'',
        \<lparr>description = ''Rights for commercial use and reproduction'',
         percentage = 15, base_value = 65\<rparr>)]"

definition photography_structure :: "(string \<times> rights_details) list" where
  "photography_structure =
    [(''photographic_composition_rights'',
        \<lparr>description = ''Composition, framing, and photographic vision'',
         percentage = 35, base_value = 50\<rparr>),
     (''subject_capture_rights'',
        \<lparr>description = ''Original subject matter and moment capture'',
         percentage = 25, base_value = 45\<rparr>),
     (''technical_photography_rights'',
        \<lparr>description = ''Camera technique, lighting, and technical execution'',
         percentage = 20, base_value = 40\<rparr>),
     (''post_processing_rights'',
        \<lparr>description = ''Digital editing, color grading, and enhancement'',
         percentage = 10, base_value = 35\<rparr>),
     (''commercial_licensing_rights'',
        \<lparr>description = ''Rights for commercial use and licensing'',
         percentage = 10, base_value = 70\<rparr>)]"

definition music_composition_structure :: "(string \<times> rights_details) list" where
  "music_composition_structure =
    [(''melody_composition_rights'',
        \<lparr>description = ''Original melody, musical themes, and composition'',
         percentage = 30, base_value = 55\<rparr>),
     (''lyrical_content_rights'',
        \<lparr>description = ''Song lyrics, vocal content, and lyrical creativity'',
         percentage = 25, base_value = 45\<rparr>),
     (''arrangement_production_rights'',
        \<lparr>description = ''Musical arrangement, instrumentation, and production'',
         percentage = 20, base_value = 50\<rparr>),
     (''performance_rights'',
        \<lparr>description = ''Performance and recording rights'',
         percentage = 15, base_value = 60\<rparr>),
     (''synchronization_rights'',
        \<lparr>description = ''Rights for use in media, films, and advertisements'',
         percentage = 10, base_value = 75\<rparr>)]"

definition podcast_audio_structure :: "(string \<times> rights_details) list" where
  "podcast_audio_structure =
    [(''content_creation_rights'',
        \<lparr>description = ''Original content, topics, and creative approach'',
         percentage = 35, base_value = 40\<rparr>),
     (''host_personality_rights'',
        \<lparr>description = ''Host persona, style, and unique presentation'',
         percentage = 25, base_value = 35\<rparr>),
     (''production_quality_rights'',
        \<lparr>description = ''Audio production, editing, and technical quality'',
         percentage = 20, base_value = 30\<rparr>),
     (''format_concept_rights'',
        \<lparr>description = ''Show format, structure, and conceptual framework'',
         percentage = 10, base_value = 45\<rparr>),
     (''distribution_syndication_rights'',
        \<lparr>description = ''Rights to distribute and syndicate content'',
         percentage = 10, base_value = 50\<rparr>)]"

definition software_code_structure :: "(string \<times> rights_details) list" where
  "software_code_structure =
    [(''algorithm_logic_rights'',
        \<lparr>description = ''Core algorithms, logic, and computational methods'',
         percentage = 35, base_value = 60\<rparr>),
     (''user_interface_rights'',
        \<lparr>description = ''UI/UX design, interface, and user experience'',
         percentage = 25, base_value = 45\<rparr>),
     (''architecture_design_rights'',
        \<lparr>description = ''Software architecture and system design'',
         percentage = 20, base_value = 55\<rparr>),
     (''innovation_patent_rights'',
        \<lparr>description = ''Technical innovations and patentable methods'',
         percentage = 10, base_value = 80\<rparr>),
     (''commercial_licensing_rights'',
        \<lparr>description = ''Rights to license and commercialize the software'',
         percentage = 10, base_value = 70\<rparr>)]"

definition video_games_structure :: "(string \<times> rights_details) list" where
  "video_games_structure =
    [(''visual_art_assets_rights'',
        \<lparr>description = ''Character designs, environments, textures, UI art, and visual assets'',
         percentage = 25, base_value = 55\<rparr>),
     (''audio_music_rights'',
        \<lparr>description = ''Original soundtrack, background music, and musical compositions'',
         percentage = 15, base_value = 50\<rparr>),
     (''sound_effects_rights'',
        \<lparr>description = ''Sound effects, voice acting, and audio design'',
         percentage = 10, base_value = 40\<rparr>),
     (''narrative_story_rights'',
        \<lparr>description = ''Storyline, dialogue, lore, and narrative content'',
         percentage = 15, base_value = 45\<rparr>),
     (''gameplay_mechanics_rights'',
        \<lparr>description = ''Game mechanics, rules, systems, and interactive design'',
         percentage = 20, base_value = 60\<rparr>),
     (''code_programming_rights'',
        \<lparr>description = ''Source code, programming, and technical implementation'',
         percentage = 10, base_value = 65\<rparr>),
     (''distribution_licensing_rights'',
        \<lparr>description = ''Rights to distribute, publish, and license the game'',
         percentage = 5, base_value = 75\<rparr>)]"

definition CONTENT_CATEGORIES :: "(string \<times> category_data) list" where
  "CONTENT_CATEGORIES =
    [(''film'',
        \<lparr>cat_name = ''Film & Cinema'',
         cat_description = ''Feature films, short films, documentaries, and cinematic content'',
         file_types = [''mp4'', ''mov'', ''avi'', ''mkv'', ''wmv''],
         tokenization_structure = film_structure\<rparr>),
     (''animation'',
        \<lparr>cat_name = ''Animation & Motion Graphics'',
         cat_description = ''Animated content, motion graphics, and digital animation'',
         file_types = [''mp4'', ''mov'', ''gif'', ''webm''],
         tokenization_structure = animation_structure\<rparr>),
     (''screenplay'',
        \<lparr>cat_name = ''Screenplay Writing'',
         cat_description = ''Film scripts, TV scripts, and screenplay content'',
         file_types = [''pdf'', ''txt'', ''doc'', ''docx'', ''rtf''],
         tokenization_structure = screenplay_structure\<rparr>),
     (''book_writing'',
        \<lparr>cat_name = ''Book & Literature Writing'',
         cat_description = ''Novels, non-fiction books, poetry, and literary works'',
         file_types = [''pdf'', ''txt'', ''doc'', ''docx'', ''epub''],
         tokenization_structure = book_writing_structure\<rparr>),
     (''digital_art'',
        \<lparr>cat_name = ''Digital Art & Illustration'',
         cat_description = ''Digital paintings, illustrations, and artistic creations'',
         file_types = [''jpg'', ''jpeg'', ''png'', ''gif'', ''bmp'', ''tiff'', ''webp''],
         tokenization_structure = digital_art_structure\<rparr>),
     (''photography'',
        \<lparr>cat_name = ''Photography'',
         cat_description = ''Original photographs and photographic art'',
         file_types = [''jpg'', ''jpeg'', ''png'', ''raw'', ''tiff''],
         tokenization_structure = photography_structure\<rparr>),
     (''music_composition'',
        \<lparr>cat_name = ''Music Composition'',
         cat_description = ''Original music compositions and musical works'',
         file_types = [''mp3'', ''wav'', ''aac'', ''flac'', ''ogg'', ''m4a''],
         tokenization_structure = music_composition_structure\<rparr>),
     (''podcast_audio'',
        \<lparr>cat_name = ''Podcast & Audio Content'',
         cat_description = ''Podcasts, audio shows, and spoken content'',
         file_types = [''mp3'', ''wav'', ''aac'', ''m4a''],
         tokenization_structure = podcast_audio_structure\<rparr>),
     (''software_code'',
        \<lparr>cat_name = ''Software & Code'',
         cat_description = ''Software applications, code, and digital tools'',
         file_types = [''py'', ''js'', ''html'', ''css'', ''java'', ''cpp'', ''zip''],
         tokenization_structure = software_code_structure\<rparr>),
     (''video_games'',
        \<lparr>cat_name = ''Video Games & Interactive Media'',
         cat_description = ''Video games, interactive entertainment, and game-related content'',
         file_types = [''exe'', ''apk'', ''ipa'', ''unity'', ''unreal'', ''zip'', ''rar'', ''mp4'', ''mov''],
         tokenization_structure = video_games_structure\<rparr>)]"

text \<open>
  \<^verbatim>\<open>get_category_by_file_extension\<close>: the first category, in table order, whose
  \<^verbatim>\<open>file_types\<close> holds the normalised extension; \<^verbatim>\<open>'digital_art'\<close> when none does.
\<close>

fun first_category_with :: "string \<Rightarrow> (string \<times> category_data) list \<Rightarrow> string" where
  "first_category_with file_ext [] = ''digital_art''"
| "first_category_with file_ext ((category_id, category_data) # rest) =
     (if file_ext \<in> set (file_types category_data) then category_id
      else first_category_with file_ext rest)"

definition get_category_by_file_extension :: "string \<Rightarrow> string" where
  "get_category_by_file_extension file_extension =
     first_category_with (lstrip_dot (lower file_extension)) CONTENT_CATEGORIES"

text \<open>
  \<^verbatim>\<open>get_category_tokenization_structure\<close>: an id that is not a key of the table is
  replaced by \<^verbatim>\<open>'digital_art'\<close> (the source logs a warning and goes on).
\<close>

definition get_category_tokenization_structure ::
    "string \<Rightarrow> py_error + (string \<times> rights_details) list" where
  "get_category_tokenization_structure category_id =
     (let category_id' = (if category_id \<notin> set (map fst CONTENT_CATEGORIES)
                          then ''digital_art'' else category_id)
      in case map_of CONTENT_CATEGORIES category_id' of
           None \<Rightarrow> Inl (KeyError category_id')
         | Some category_data \<Rightarrow> Inr (tokenization_structure category_data))"

definition validate_category_selection :: "string \<Rightarrow> string \<Rightarrow> bool" where
  "validate_category_selection category_id file_extension =
     (case map_of CONTENT_CATEGORIES category_id of
        None \<Rightarrow> False
      | Some category_data \<Rightarrow> lstrip_dot (lower file_extension) \<in> set (file_types category_data))"

section \<open>The classifier\<close>

record pattern_data =
  pattern_keywords :: "string list"
  pattern_file_types :: "string list"
  confidence_boost :: rat

definition keyword_patterns :: "(string \<times> pattern_data) list" where
  "keyword_patterns =
    [(''film'',
        \<lparr>pattern_keywords = [''movie'', ''film'', ''cinema'', ''documentary'', ''feature'',
                     ''short film'', ''trailer'', ''scene''],
         pattern_file_types = [''mp4'', ''mov'', ''avi'', ''mkv'', ''wmv'', ''m4v'', ''flv''],
         confidence_boost = 15 / 100\<rparr>),
     (''screenplay'',
        \<lparr>pattern_keywords = [''screenplay'', ''script'', ''dialogue'', ''scene'', ''act'',
                     ''fade in'', ''fade out'', ''treatment''],
         pattern_file_types = [''pdf'', ''txt'', ''doc'', ''docx'', ''rtf'', ''fountain''],
         confidence_boost = 20 / 100\<rparr>),
     (''music'',
        \<lparr>pattern_keywords = [''song'', ''music'', ''track'', ''album'', ''beat'', ''melody'',
                     ''audio'', ''sound''],
         pattern_file_types = [''mp3'', ''wav'', ''flac'', ''aac'', ''m4a'', ''ogg''],
         confidence_boost = 18 / 100\<rparr>),
     (''book_writing'',
        \<lparr>pattern_keywords = [''book'', ''novel'', ''chapter'', ''story'', ''manuscript'',
                     ''literature'', ''writing'', ''text''],
         pattern_file_types = [''pdf'', ''txt'', ''doc'', ''docx'', ''epub'', ''rtf''],
         confidence_boost = 16 / 100\<rparr>),
     (''digital_art'',
        \<lparr>pattern_keywords = [''art'', ''design'', ''illustration'', ''graphic'', ''visual'',
                     ''artwork'', ''drawing'', ''painting''],
         pattern_file_types = [''jpg'', ''jpeg'', ''png'', ''gif'', ''bmp'', ''svg'', ''psd'', ''ai''],
         confidence_boost = 14 / 100\<rparr>),
     (''photography'',
        \<lparr>pattern_keywords = [''photo'', ''photograph'', ''image'', ''picture'', ''shot'',
                     ''portrait'', ''landscape''],
         pattern_file_types = [''jpg'', ''jpeg'', ''png'', ''raw'', ''tiff'', ''cr2'', ''nef''],
         confidence_boost = 17 / 100\<rparr>),
     (''animation'',
        \<lparr>pattern_keywords = [''animation'', ''animated'', ''cartoon'', ''motion'', ''frame'',
                     ''tween'', ''3d'', ''2d''],
         pattern_file_types = [''mp4'', ''mov'', ''gif'', ''avi'', ''mkv'', ''swf''],
         confidence_boost = 19 / 100\<rparr>),
     (''gaming'',
        \<lparr>pattern_keywords = [''game'', ''gaming'', ''level'', ''character'', ''gameplay'',
                     ''interactive'', ''unity'', ''unreal''],
         pattern_file_types = [''exe'', ''apk'', ''ipa'', ''unity'', ''unreal'', ''zip''],
         confidence_boost = 13 / 100\<rparr>),
     (''software'',
        \<lparr>pattern_keywords = [''app'', ''software'', ''program'', ''code'', ''application'',
                     ''tool'', ''utility''],
         pattern_file_types = [''exe'', ''dmg'', ''apk'', ''ipa'', ''zip'', ''tar'', ''gz''],
         confidence_boost = 12 / 100\<rparr>)]"

definition video_types :: "string list" where
  "video_types = [''mp4'', ''mov'', ''avi'', ''mkv'', ''wmv'']"

definition text_types :: "string list" where
  "text_types = [''pdf'', ''txt'', ''doc'', ''docx'']"

definition audio_types :: "string list" where
  "audio_types = [''mp3'', ''wav'', ''flac'', ''aac'']"

text \<open>
  The inner loop over the keywords of one category: the pair is
  (\<^verbatim>\<open>keyword_matches\<close>, \<^verbatim>\<open>score\<close>), and a keyword found in the text adds
  \<^verbatim>\<open>0.1 + len(keyword) * 0.01\<close>.
\<close>

fun match_keywords :: "string \<Rightarrow> string list \<Rightarrow> nat \<times> rat \<Rightarrow> nat \<times> rat" where
  "match_keywords text_to_analyze [] (keyword_matches, score) = (keyword_matches, score)"
| "match_keywords text_to_analyze (keyword # rest) (keyword_matches, score) =
     (if str_in keyword text_to_analyze
      then match_keywords text_to_analyze rest
             (keyword_matches + 1, score + (1 / 10 + of_nat (length keyword) * (1 / 100)))
      else match_keywords text_to_analyze rest (keyword_matches, score))"

text \<open>The body of the loop over \<^verbatim>\<open>keyword_patterns\<close>: the capped score of one category.\<close>

definition category_score :: "string \<Rightarrow> string \<Rightarrow> string \<Rightarrow> pattern_data \<Rightarrow> rat" where
  "category_score text_to_analyze file_ext category_id pd =
     (let score0 = (if file_ext \<in> set (pattern_file_types pd) then 4 / 10 else 0);
          (keyword_matches, score1) = match_keywords text_to_analyze (pattern_keywords pd) (0, score0);
          score2 = (if keyword_matches > 0
                    then score1 + confidence_boost pd + min (of_nat keyword_matches * (5 / 100)) (2 / 10)
                    else score1);
          score3 = (if keyword_matches > 0 \<and> file_ext \<notin> set (pattern_file_types pd)
                    then (if (file_ext \<in> set video_types \<and> category_id \<in> set [''screenplay'', ''book_writing''])
                           \<or> (file_ext \<in> set text_types \<and> category_id \<in> set [''film'', ''music'', ''animation''])
                           \<or> (file_ext \<in> set audio_types \<and> category_id \<in> set [''film'', ''digital_art'', ''photography''])
                          then score2 * (3 / 10)
                          else score2 * (7 / 10))
                    else score2)
      in min score3 1)"

text \<open>
  \<^verbatim>\<open>category_scores\<close> after the loop. The keys of \<^verbatim>\<open>keyword_patterns\<close> are distinct,
  so every iteration adds a new key and the dict is the list of the entries in table order.
\<close>

definition category_scores :: "string \<Rightarrow> string \<Rightarrow> (string \<times> rat) list" where
  "category_scores text_to_analyze file_ext =
     map (\<lambda>(category_id, pd). (category_id, category_score text_to_analyze file_ext category_id pd))
       keyword_patterns"

text \<open>
  \<^verbatim>\<open>max(items, key=lambda x: x[1])\<close> keeps the first item whose score is maximal:
  a later item replaces the current best only when its score is strictly greater.
\<close>

fun max_by_score :: "string \<times> rat \<Rightarrow> (string \<times> rat) list \<Rightarrow> string \<times> rat" where
  "max_by_score best [] = best"
| "max_by_score best (x # xs) =
     (if snd best < snd x then max_by_score x xs else max_by_score best xs)"

datatype method_label = enhanced_keyword_analysis | file_extension_fallback | default_fallback

record detection =
  detected_category :: string
  confidence :: rat
  detection_method :: method_label
  detected_keywords :: "string list"
  all_scores :: "(string \<times> rat) list"

text \<open>
  The part of \<^verbatim>\<open>enhanced_auto_detect_category\<close> after the scoring loop
  (\<^verbatim>\<open>if category_scores: ...\<close> and the final \<^verbatim>\<open>return\<close>).
\<close>

definition find_best_match ::
    "(string \<times> rat) list \<Rightarrow> string \<Rightarrow> string \<Rightarrow> py_error + detection" where
  "find_best_match scores text_to_analyze file_extension =
     (case scores of
        x # xs \<Rightarrow>
          (let best_category = max_by_score x xs;
               conf = snd best_category
           in if conf < 3 / 10
              then Inr \<lparr>detected_category = get_category_by_file_extension file_extension,
                        confidence = 85 / 100,
                        detection_method = file_extension_fallback,
                        detected_keywords = [],
                        all_scores = scores\<rparr>
              else (case map_of keyword_patterns (fst best_category) of
                      None \<Rightarrow> Inl (KeyError (fst best_category))
                    | Some winning_pattern \<Rightarrow>
                        Inr \<lparr>detected_category = fst best_category,
                             confidence = min (conf + 5 / 100) (98 / 100),
                             detection_method = enhanced_keyword_analysis,
                             detected_keywords =
                               filter (\<lambda>kw. str_in kw text_to_analyze) (pattern_keywords winning_pattern),
                             all_scores = scores\<rparr>))
      | [] \<Rightarrow>
          Inr \<lparr>detected_category = ''digital_art'',
               confidence = 75 / 100,
               detection_method = default_fallback,
               detected_keywords = [],
               all_scores = []\<rparr>)"

definition text_of :: "string \<Rightarrow> string \<Rightarrow> string" where
  "text_of filename content_title = strip (lower filename @ '' '' @ lower content_title)"

definition enhanced_auto_detect_category ::
    "string \<Rightarrow> string \<Rightarrow> string \<Rightarrow> py_error + detection" where
  "enhanced_auto_detect_category filename file_extension content_title =
     (let file_ext = lstrip_dot (lower file_extension);
          text_to_analyze = text_of filename content_title
      in find_best_match (category_scores text_to_analyze file_ext) text_to_analyze file_extension)"

section \<open>Numbers\<close>

text \<open>\<^verbatim>\<open>int(x)\<close> truncates towards zero.\<close>

definition py_int :: "rat \<Rightarrow> int" where
  "py_int x = (if x < 0 then \<lceil>x\<rceil> else \<lfloor>x\<rfloor>)"

definition round_half_even :: "rat \<Rightarrow> int" where
  "round_half_even x =
     (let f = \<lfloor>x\<rfloor>; d = x - of_int f
      in if d < 1 / 2 then f
         else if 1 / 2 < d then f + 1
         else if even f then f else f + 1)"

text \<open>\<^verbatim>\<open>round(x, ndigits)\<close>.\<close>

definition py_round :: "rat \<Rightarrow> nat \<Rightarrow> rat" where
  "py_round x ndigits = of_int (round_half_even (x * 10 ^ ndigits)) / 10 ^ ndigits"

text \<open>
  \<^verbatim>\<open>random.uniform(a, b)\<close> is \<^verbatim>\<open>a + (b - a) * self.random()\<close>; \<open>r\<close> is the number
  that \<^verbatim>\<open>random()\<close> returns for this draw.
\<close>

definition uniform :: "rat \<Rightarrow> rat \<Rightarrow> rat \<Rightarrow> rat" where
  "uniform r a b = a + (b - a) * r"

section \<open>The tokenizers\<close>

type_synonym analysis = "string \<rightharpoonup> rat"

text \<open>\<^verbatim>\<open>analysis.get('originality_score', 90)\<close>\<close>

definition get_originality_score :: "analysis \<Rightarrow> rat" where
  "get_originality_score analysis =
     (case analysis ''originality_score'' of None \<Rightarrow> 90 | Some v \<Rightarrow> v)"

record factors_entry =
  originality_factor :: rat
  value_multiplier :: rat

record token_category =
  tc_description :: string
  token_count :: int
  token_value_usd :: rat
  total_value_usd :: rat
  available_tokens :: int
  sold_tokens :: int
  category_factors :: factors_entry

datatype py_value = Str string | Num rat

text \<open>
  The result dict of a tokenizer. \<open>category_analysis\<close> and \<open>tz_total_value_usd\<close>
  (the key \<^verbatim>\<open>'total_value_usd'\<close> of the outer dict) are \<open>None\<close> until the code
  stores them.
\<close>

record tokenization =
  content_id :: string
  content_category :: string
  total_tokens :: int
  token_categories :: "(string \<times> token_category) list"
  created_timestamp :: int
  tz_originality_factor :: rat
  version :: string
  category_analysis :: "(string \<times> py_value) list option"
  tz_total_value_usd :: "rat option"

record specialized_tokenizer =
  self_total_tokens :: int

text \<open>\<^verbatim>\<open>SpecializedTokenizer()\<close>: the constructor sets the standard token amount.\<close>

definition SpecializedTokenizer :: specialized_tokenizer where
  "SpecializedTokenizer = \<lparr>self_total_tokens = 1000\<rparr>"

text \<open>\<^verbatim>\<open>d[k] = v\<close>: a present key keeps its place, a new key goes to the end.\<close>

fun dict_set :: "('k \<times> 'v) list \<Rightarrow> 'k \<Rightarrow> 'v \<Rightarrow> ('k \<times> 'v) list" where
  "dict_set [] k v = [(k, v)]"
| "dict_set ((k', v') # d) k v =
     (if k' = k then (k', v) # d else (k', v') # dict_set d k v)"

definition create_base_tokenization ::
    "specialized_tokenizer \<Rightarrow> int \<Rightarrow> string \<Rightarrow> string \<Rightarrow> analysis \<Rightarrow> tokenization" where
  "create_base_tokenization self now cid category analysis =
     \<lparr>content_id = cid,
      content_category = category,
      total_tokens = self_total_tokens self,
      token_categories = [],
      created_timestamp = now,
      tz_originality_factor = get_originality_score analysis / 100,
      version = ''1.1'',
      category_analysis = None,
      tz_total_value_usd = None\<rparr>"

text \<open>
  The dict that the loop body of a specialised tokenizer stores for one rights bucket,
  given the \<^verbatim>\<open>value_multiplier\<close> its \<^verbatim>\<open>if\<close>/\<^verbatim>\<open>elif\<close> chain computed.
\<close>

definition specialized_entry ::
    "specialized_tokenizer \<Rightarrow> rights_details \<Rightarrow> rat \<Rightarrow> rat \<Rightarrow> token_category" where
  "specialized_entry self details orig_factor multiplier =
     (let count = py_int (of_int (self_total_tokens self * percentage details) / 100);
          token_value = base_value details * orig_factor * multiplier
      in \<lparr>tc_description = description details,
          token_count = count,
          token_value_usd = py_round token_value 2,
          total_value_usd = py_round (token_value * of_int count) 2,
          available_tokens = count,
          sold_tokens = 0,
          category_factors =
            \<lparr>originality_factor = py_round orig_factor 3,
             value_multiplier = py_round multiplier 3\<rparr>\<rparr>)"

text \<open>The dict that the loop body of \<^verbatim>\<open>tokenize_generic\<close> stores.\<close>

definition generic_entry ::
    "specialized_tokenizer \<Rightarrow> rights_details \<Rightarrow> rat \<Rightarrow> token_category" where
  "generic_entry self details orig_factor =
     (let count = py_int (of_int (self_total_tokens self * percentage details) / 100);
          token_value = base_value details * orig_factor
      in \<lparr>tc_description = description details,
          token_count = count,
          token_value_usd = py_round token_value 2,
          total_value_usd = py_round (token_value * of_int count) 2,
          available_tokens = count,
          sold_tokens = 0,
          category_factors =
            \<lparr>originality_factor = py_round orig_factor 3,
             value_multiplier = 1\<rparr>\<rparr>)"

text \<open>
  The loop \<^verbatim>\<open>for category, details in structure.items():
  tokenization['token_categories'][category] = entry\<close>.
\<close>

definition fill_token_categories ::
    "(string \<Rightarrow> rights_details \<Rightarrow> token_category) \<Rightarrow> (string \<times> rights_details) list
      \<Rightarrow> (string \<times> token_category) list \<Rightarrow> (string \<times> token_category) list" where
  "fill_token_categories entry structure tcs =
     fold (\<lambda>(category, details) acc. dict_set acc category (entry category details)) structure tcs"

definition score_of :: "rat \<Rightarrow> py_value" where
  "score_of factor = Num (py_round (factor * 100) 1)"

definition tokenize_film ::
    "specialized_tokenizer \<Rightarrow> (nat \<Rightarrow> rat) \<Rightarrow> int \<Rightarrow> string \<Rightarrow> analysis \<Rightarrow> py_error + tokenization" where
  "tokenize_film self rnd now cid analysis =
     (case get_category_tokenization_structure ''film'' of
        Inl e \<Rightarrow> Inl e
      | Inr structure \<Rightarrow>
          (let orig_factor = get_originality_score analysis / 100;
               production_quality = uniform (rnd 0) (8 / 10) 1;
               narrative_complexity = uniform (rnd 1) (7 / 10) (95 / 100);
               technical_innovation = uniform (rnd 2) (6 / 10) (9 / 10);
               commercial_potential = uniform (rnd 3) (5 / 10) (85 / 100);
               tokenization = create_base_tokenization self now cid ''film'' analysis
           in Inr (tokenization
                \<lparr>token_categories :=
                   fill_token_categories
                     (\<lambda>category details. specialized_entry self details orig_factor
                        (if str_in ''cinematography'' category then 1 * technical_innovation
                         else if str_in ''narrative'' category then 1 * narrative_complexity
                         else if str_in ''distribution'' category then 1 * commercial_potential
                         else 1))
                     structure (token_categories tokenization),
                 category_analysis := Some
                   [(''content_category'', Str ''film''),
                    (''production_quality_score'', score_of production_quality),
                    (''narrative_complexity_score'', score_of narrative_complexity),
                    (''technical_innovation_score'', score_of technical_innovation),
                    (''commercial_potential_score'', score_of commercial_potential)]\<rparr>)))"

definition tokenize_animation ::
    "specialized_tokenizer \<Rightarrow> (nat \<Rightarrow> rat) \<Rightarrow> int \<Rightarrow> string \<Rightarrow> analysis \<Rightarrow> py_error + tokenization" where
  "tokenize_animation self rnd now cid analysis =
     (case get_category_tokenization_structure ''animation'' of
        Inl e \<Rightarrow> Inl e
      | Inr structure \<Rightarrow>
          (let orig_factor = get_originality_score analysis / 100;
               artistic_style = uniform (rnd 0) (8 / 10) 1;
               animation_quality = uniform (rnd 1) (7 / 10) (95 / 100);
               character_appeal = uniform (rnd 2) (6 / 10) (9 / 10);
               technical_complexity = uniform (rnd 3) (5 / 10) (85 / 100);
               tokenization = create_base_tokenization self now cid ''animation'' analysis
           in Inr (tokenization
                \<lparr>token_categories :=
                   fill_token_categories
                     (\<lambda>category details. specialized_entry self details orig_factor
                        (if str_in ''artistry'' category then 1 * artistic_style
                         else if str_in ''character'' category then 1 * character_appeal
                         else if str_in ''technical'' category then 1 * technical_complexity
                         else 1))
                     structure (token_categories tokenization),
                 category_analysis := Some
                   [(''content_category'', Str ''animation''),
                    (''artistic_style_score'', score_of artistic_style),
                    (''animation_quality_score'', score_of animation_quality),
                    (''character_appeal_score'', score_of character_appeal),
                    (''technical_complexity_score'', score_of technical_complexity)]\<rparr>)))"

definition tokenize_screenplay ::
    "specialized_tokenizer \<Rightarrow> (nat \<Rightarrow> rat) \<Rightarrow> int \<Rightarrow> string \<Rightarrow> analysis \<Rightarrow> py_error + tokenization" where
  "tokenize_screenplay self rnd now cid analysis =
     (case get_category_tokenization_structure ''screenplay'' of
        Inl e \<Rightarrow> Inl e
      | Inr structure \<Rightarrow>
          (let orig_factor = get_originality_score analysis / 100;
               dialogue_quality = uniform (rnd 0) (8 / 10) 1;
               plot_originality = uniform (rnd 1) (7 / 10) (95 / 100);
               character_depth = uniform (rnd 2) (6 / 10) (9 / 10);
               adaptation_potential = uniform (rnd 3) (5 / 10) (85 / 100);
               tokenization = create_base_tokenization self now cid ''screenplay'' analysis
           in Inr (tokenization
                \<lparr>token_categories :=
                   fill_token_categories
                     (\<lambda>category details. specialized_entry self details orig_factor
                        (if str_in ''dialogue'' category then 1 * dialogue_quality
                         else if str_in ''plot'' category then 1 * plot_originality
                         else if str_in ''character'' category then 1 * character_depth
                         else if str_in ''adaptation'' category then 1 * adaptation_potential
                         else 1))
                     structure (token_categories tokenization),
                 category_analysis := Some
                   [(''content_category'', Str ''screenplay''),
                    (''dialogue_quality_score'', score_of dialogue_quality),
                    (''plot_originality_score'', score_of plot_originality),
                    (''character_depth_score'', score_of character_depth),
                    (''adaptation_potential_score'', score_of adaptation_potential)]\<rparr>)))"

definition tokenize_book_writing ::
    "specialized_tokenizer \<Rightarrow> (nat \<Rightarrow> rat) \<Rightarrow> int \<Rightarrow> string \<Rightarrow> analysis \<Rightarrow> py_error + tokenization" where
  "tokenize_book_writing self rnd now cid analysis =
     (case get_category_tokenization_structure ''book_writing'' of
        Inl e \<Rightarrow> Inl e
      | Inr structure \<Rightarrow>
          (let orig_factor = get_originality_score analysis / 100;
               prose_quality = uniform (rnd 0) (8 / 10) 1;
               narrative_innovation = uniform (rnd 1) (7 / 10) (95 / 100);
               world_building = uniform (rnd 2) (6 / 10) (9 / 10);
               market_appeal = uniform (rnd 3) (5 / 10) (85 / 100);
               tokenization = create_base_tokenization self now cid ''book_writing'' analysis
           in Inr (tokenization
                \<lparr>token_categories :=
                   fill_token_categories
                     (\<lambda>category details. specialized_entry self details orig_factor
                        (if str_in ''prose'' category then 1 * prose_quality
                         else if str_in ''plot'' category then 1 * narrative_innovation
                         else if str_in ''world'' category then 1 * world_building
                         else if str_in ''publishing'' category then 1 * market_appeal
                         else 1))
                     structure (token_categories tokenization),
                 category_analysis := Some
                   [(''content_category'', Str ''book_writing''),
                    (''prose_quality_score'', score_of prose_quality),
                    (''narrative_innovation_score'', score_of narrative_innovation),
                    (''world_building_score'', score_of world_building),
                    (''market_appeal_score'', score_of market_appeal)]\<rparr>)))"

definition tokenize_digital_art ::
    "specialized_tokenizer \<Rightarrow> (nat \<Rightarrow> rat) \<Rightarrow> int \<Rightarrow> string \<Rightarrow> analysis \<Rightarrow> py_error + tokenization" where
  "tokenize_digital_art self rnd now cid analysis =
     (case get_category_tokenization_structure ''digital_art'' of
        Inl e \<Rightarrow> Inl e
      | Inr structure \<Rightarrow>
          (let orig_factor = get_originality_score analysis / 100;
               artistic_skill = uniform (rnd 0) (8 / 10) 1;
               concept_originality = uniform (rnd 1) (7 / 10) (95 / 100);
               technical_execution = uniform (rnd 2) (6 / 10) (9 / 10);
               commercial_viability = uniform (rnd 3) (5 / 10) (85 / 100);
               tokenization = create_base_tokenization self now cid ''digital_art'' analysis
           in Inr (tokenization
                \<lparr>token_categories :=
                   fill_token_categories
                     (\<lambda>category details. specialized_entry self details orig_factor
                        (if str_in ''composition'' category then 1 * artistic_skill
                         else if str_in ''concept'' category then 1 * concept_originality
                         else if str_in ''technical'' category then 1 * technical_execution
                         else if str_in ''commercial'' category then 1 * commercial_viability
                         else 1))
                     structure (token_categories tokenization),
                 category_analysis := Some
                   [(''content_category'', Str ''digital_art''),
                    (''artistic_skill_score'', score_of artistic_skill),
                    (''concept_originality_score'', score_of concept_originality),
                    (''technical_execution_score'', score_of technical_execution),
                    (''commercial_viability_score'', score_of commercial_viability)]\<rparr>)))"

definition tokenize_generic ::
    "specialized_tokenizer \<Rightarrow> int \<Rightarrow> string \<Rightarrow> analysis \<Rightarrow> string \<Rightarrow> py_error + tokenization" where
  "tokenize_generic self now cid analysis category =
     (case get_category_tokenization_structure category of
        Inl e \<Rightarrow> Inl e
      | Inr structure \<Rightarrow>
          (let orig_factor = get_originality_score analysis / 100;
               tokenization = create_base_tokenization self now cid category analysis
           in Inr (tokenization
                \<lparr>token_categories :=
                   fill_token_categories
                     (\<lambda>category_name details. generic_entry self details orig_factor)
                     structure (token_categories tokenization),
                 category_analysis := Some
                   [(''content_category'', Str category),
                    (''tokenization_method'', Str ''generic'')]\<rparr>)))"

definition tokenize_video_games ::
    "specialized_tokenizer \<Rightarrow> (nat \<Rightarrow> rat) \<Rightarrow> int \<Rightarrow> string \<Rightarrow> analysis \<Rightarrow> py_error + tokenization" where
  "tokenize_video_games self rnd now cid analysis =
     (case get_category_tokenization_structure ''video_games'' of
        Inl e \<Rightarrow> Inl e
      | Inr structure \<Rightarrow>
          (let orig_factor = get_originality_score analysis / 100;
               artistic_quality = uniform (rnd 0) (8 / 10) 1;
               audio_production = uniform (rnd 1) (7 / 10) (95 / 100);
               narrative_depth = uniform (rnd 2) (6 / 10) (9 / 10);
               gameplay_innovation = uniform (rnd 3) (7 / 10) 1;
               technical_execution = uniform (rnd 4) (6 / 10) (95 / 100);
               commercial_potential = uniform (rnd 5) (5 / 10) (85 / 100);
               tokenization = create_base_tokenization self now cid ''video_games'' analysis
           in Inr (tokenization
                \<lparr>token_categories :=
                   fill_token_categories
                     (\<lambda>category details. specialized_entry self details orig_factor
                        (if str_in ''visual_art'' category then 1 * artistic_quality
                         else if str_in ''audio_music'' category then 1 * audio_production
                         else if str_in ''sound_effects'' category then 1 * (audio_production * (9 / 10))
                         else if str_in ''narrative'' category then 1 * narrative_depth
                         else if str_in ''gameplay'' category then 1 * gameplay_innovation
                         else if str_in ''code_programming'' category then 1 * technical_execution
                         else if str_in ''distribution'' category then 1 * commercial_potential
                         else 1))
                     structure (token_categories tokenization),
                 category_analysis := Some
                   [(''content_category'', Str ''video_games''),
                    (''artistic_quality_score'', score_of artistic_quality),
                    (''audio_production_score'', score_of audio_production),
                    (''narrative_depth_score'', score_of narrative_depth),
                    (''gameplay_innovation_score'', score_of gameplay_innovation),
                    (''technical_execution_score'', score_of technical_execution),
                    (''commercial_potential_score'', score_of commercial_potential)]\<rparr>)))"

text \<open>
  \<^verbatim>\<open>get_specialized_tokenizer\<close>: \<^verbatim>\<open>tokenizer_map.get(category, generic)\<close>. The function
  it returns is applied to the random draws, the clock, the content id and the analysis.
\<close>

definition tokenizer_map ::
    "specialized_tokenizer \<Rightarrow>
      (string \<times> ((nat \<Rightarrow> rat) \<Rightarrow> int \<Rightarrow> string \<Rightarrow> analysis \<Rightarrow> py_error + tokenization)) list" where
  "tokenizer_map self =
    [(''film'', tokenize_film self),
     (''animation'', tokenize_animation self),
     (''screenplay'', tokenize_screenplay self),
     (''book_writing'', tokenize_book_writing self),
     (''digital_art'', tokenize_digital_art self),
     (''video_games'', tokenize_video_games self),
     (''photography'', \<lambda>rnd now cid analysis. tokenize_generic self now cid analysis ''photography''),
     (''music_composition'', \<lambda>rnd now cid analysis. tokenize_generic self now cid analysis ''music_composition''),
     (''podcast_audio'', \<lambda>rnd now cid analysis. tokenize_generic self now cid analysis ''podcast_audio''),
     (''software_code'', \<lambda>rnd now cid analysis. tokenize_generic self now cid analysis ''software_code'')]"

definition get_specialized_tokenizer ::
    "specialized_tokenizer \<Rightarrow> string \<Rightarrow>
      (nat \<Rightarrow> rat) \<Rightarrow> int \<Rightarrow> string \<Rightarrow> analysis \<Rightarrow> py_error + tokenization" where
  "get_specialized_tokenizer self category =
     (case map_of (tokenizer_map self) category of
        Some tokenizer \<Rightarrow> tokenizer
      | None \<Rightarrow> (\<lambda>rnd now cid analysis. tokenize_generic self now cid analysis category))"

text \<open>
  \<^verbatim>\<open>create_specialized_tokenization\<close>. The optional arguments \<open>category\<close> and
  \<open>file_extension\<close> are \<open>None\<close> or a string; \<^verbatim>\<open>not x\<close> holds of \<open>None\<close> and of the
  empty string.
\<close>

fun truthy :: "string option \<Rightarrow> bool" where
  "truthy None = False"
| "truthy (Some s) = (s \<noteq> [])"

definition resolve_category :: "string option \<Rightarrow> string option \<Rightarrow> string" where
  "resolve_category category file_extension =
     (case (category, file_extension) of
        (Some c, Some e) \<Rightarrow>
          (if \<not> truthy category \<and> truthy file_extension then get_category_by_file_extension e
           else if \<not> truthy category then ''digital_art'' else c)
      | (Some c, None) \<Rightarrow> (if \<not> truthy category then ''digital_art'' else c)
      | (None, Some e) \<Rightarrow>
          (if truthy file_extension then get_category_by_file_extension e else ''digital_art'')
      | (None, None) \<Rightarrow> ''digital_art'')"

definition create_specialized_tokenization ::
    "(nat \<Rightarrow> rat) \<Rightarrow> int \<Rightarrow> string \<Rightarrow> analysis \<Rightarrow> string option \<Rightarrow> string option
      \<Rightarrow> py_error + tokenization" where
  "create_specialized_tokenization rnd now cid analysis category file_extension =
     (let category' = resolve_category category file_extension;
          tokenizer = SpecializedTokenizer;
          tokenization_func = get_specialized_tokenizer tokenizer category'
      in case tokenization_func rnd now cid analysis of
           Inl e \<Rightarrow> Inl e
         | Inr tokenization \<Rightarrow>
             Inr (tokenization
               \<lparr>tz_total_value_usd :=
                  Some (sum_list (map (\<lambda>(name, cat). total_value_usd cat)
                                    (token_categories tokenization)))\<rparr>))"

section \<open>Observations used in the statements\<close>

text \<open>The token counts of the buckets of a result, in bucket order.\<close>

definition token_counts :: "tokenization \<Rightarrow> int list" where
  "token_counts t = map (\<lambda>(name, cat). token_count cat) (token_categories t)"


text \<open>No keyword of any category of the keyword table occurs in the text.\<close>

definition no_keywords :: "string \<Rightarrow> bool" where
  "no_keywords text_to_analyze =
     list_all (\<lambda>(category_id, pd). list_all (\<lambda>kw. \<not> str_in kw text_to_analyze) (pattern_keywords pd))
       keyword_patterns"




text \<open>The extension is in no extension list, neither of the keyword table nor of the category table.\<close>

definition unknown_extension :: "string \<Rightarrow> bool" where
  "unknown_extension file_ext =
     (list_all (\<lambda>(category_id, pd). file_ext \<notin> set (pattern_file_types pd)) keyword_patterns
      \<and> list_all (\<lambda>(category_id, cd). file_ext \<notin> set (file_types cd)) CONTENT_CATEGORIES)"

text \<open>
  What the allocator relies on in a rights structure: distinct bucket names, percentages
  that are not negative and add up to 100, at least one bucket.
\<close>

definition well_formed :: "(string \<times> rights_details) list \<Rightarrow> bool" where
  "well_formed s =
     (distinct (map fst s) \<and> sum_list (map (\<lambda>(k, d). percentage d) s) = 100
      \<and> list_all (\<lambda>(k, d). 0 \<le> percentage d) s \<and> s \<noteq> [])"

section \<open>Auxiliary facts\<close>

subsection \<open>Dictionaries, rights structures and tokenizers\<close>

lemma dict_set_fresh: "k \<notin> fst ` set d \<Longrightarrow> dict_set d k v = d @ [(k, v)]"
  by (induction d) auto

lemma fill_distinct:
  "distinct (map fst s) \<Longrightarrow> fst ` set s \<inter> fst ` set acc = {} \<Longrightarrow>
   fill_token_categories entry s acc = acc @ map (\<lambda>(k, d). (k, entry k d)) s"
proof (induction s arbitrary: acc)
  case Nil
  then show ?case by (simp add: fill_token_categories_def)
next
  case (Cons a s)
  obtain k d where a: "a = (k, d)" by (cases a)
  from Cons.prems a have fresh: "k \<notin> fst ` set acc" by auto
  from Cons.prems a have dis: "distinct (map fst s)" and nk: "k \<notin> fst ` set s" by auto
  have disj: "fst ` set s \<inter> fst ` set (acc @ [(k, entry k d)]) = {}"
    using Cons.prems a nk by auto
  have "fill_token_categories entry (a # s) acc
        = fill_token_categories entry s (dict_set acc k (entry k d))"
    by (simp add: fill_token_categories_def a)
  also have "\<dots> = fill_token_categories entry s (acc @ [(k, entry k d)])"
    by (simp add: dict_set_fresh [OF fresh])
  also have "\<dots> = (acc @ [(k, entry k d)]) @ map (\<lambda>(k, d). (k, entry k d)) s"
    by (rule Cons.IH [OF dis disj])
  finally show ?case by (simp add: a)
qed

lemma fill_from_empty:
  "distinct (map fst s) \<Longrightarrow>
   fill_token_categories entry s [] = map (\<lambda>(k, d). (k, entry k d)) s"
  using fill_distinct [of s "[]" entry] by simp

lemma structure_film: "get_category_tokenization_structure ''film'' = Inr film_structure"
  by code_simp
lemma structure_animation: "get_category_tokenization_structure ''animation'' = Inr animation_structure"
  by code_simp
lemma structure_screenplay: "get_category_tokenization_structure ''screenplay'' = Inr screenplay_structure"
  by code_simp
lemma structure_book_writing: "get_category_tokenization_structure ''book_writing'' = Inr book_writing_structure"
  by code_simp
lemma structure_digital_art: "get_category_tokenization_structure ''digital_art'' = Inr digital_art_structure"
  by code_simp
lemma structure_photography: "get_category_tokenization_structure ''photography'' = Inr photography_structure"
  by code_simp
lemma structure_music_composition: "get_category_tokenization_structure ''music_composition'' = Inr music_composition_structure"
  by code_simp
lemma structure_podcast_audio: "get_category_tokenization_structure ''podcast_audio'' = Inr podcast_audio_structure"
  by code_simp
lemma structure_software_code: "get_category_tokenization_structure ''software_code'' = Inr software_code_structure"
  by code_simp
lemma structure_video_games: "get_category_tokenization_structure ''video_games'' = Inr video_games_structure"
  by code_simp

lemma category_keys:
  "map fst CONTENT_CATEGORIES =
     [''film'', ''animation'', ''screenplay'', ''book_writing'', ''digital_art'', ''photography'',
      ''music_composition'', ''podcast_audio'', ''software_code'', ''video_games'']"
  by code_simp

lemma wf_film: "well_formed film_structure" by code_simp
lemma wf_animation: "well_formed animation_structure" by code_simp
lemma wf_screenplay: "well_formed screenplay_structure" by code_simp
lemma wf_book_writing: "well_formed book_writing_structure" by code_simp
lemma wf_digital_art: "well_formed digital_art_structure" by code_simp
lemma wf_photography: "well_formed photography_structure" by code_simp
lemma wf_music_composition: "well_formed music_composition_structure" by code_simp
lemma wf_podcast_audio: "well_formed podcast_audio_structure" by code_simp
lemma wf_software_code: "well_formed software_code_structure" by code_simp
lemma wf_video_games: "well_formed video_games_structure" by code_simp

lemma digital_art_is_key: "''digital_art'' \<in> set (map fst CONTENT_CATEGORIES)"
  by code_simp

lemma structure_unknown:
  assumes "c \<notin> set (map fst CONTENT_CATEGORIES)"
  shows "get_category_tokenization_structure c = Inr digital_art_structure"
proof -
  have "(case map_of CONTENT_CATEGORIES ''digital_art'' of
           None \<Rightarrow> Inl (KeyError ''digital_art'')
         | Some category_data \<Rightarrow> Inr (tokenization_structure category_data))
        = Inr digital_art_structure"
    using structure_digital_art digital_art_is_key
    by (simp add: get_category_tokenization_structure_def Let_def)
  with assms show ?thesis
    by (simp add: get_category_tokenization_structure_def Let_def)
qed

lemma py_int_budget: "py_int (rat_of_int (1000 * p) / 100) = 10 * p"
proof -
  have e: "rat_of_int (1000 * p) / 100 = rat_of_int (10 * p)" by simp
  show ?thesis unfolding e py_int_def
    by (simp only: floor_of_int ceiling_of_int if_cancel)
qed

lemma specialized_count:
  "token_count (specialized_entry SpecializedTokenizer d f m) = 10 * percentage d"
  unfolding specialized_entry_def SpecializedTokenizer_def Let_def
  by (simp only: specialized_tokenizer.simps token_category.simps py_int_budget)

lemma generic_is_specialized: "generic_entry self d f = specialized_entry self d f 1"
  by (simp add: generic_entry_def specialized_entry_def py_round_def round_half_even_def)

lemma py_round_zero: "py_round 0 n = 0"
  by (simp add: py_round_def round_half_even_def)



lemma film_shape:
  "\<exists>mult ca. tokenize_film self rnd now cid an =
     Inr ((create_base_tokenization self now cid ''film'' an)
            \<lparr>token_categories :=
               map (\<lambda>(k, d). (k, specialized_entry self d (get_originality_score an / 100) (mult k)))
                 film_structure,
             category_analysis := Some ca\<rparr>)"
proof -
  have d: "distinct (map fst film_structure)" using wf_film by (simp add: well_formed_def)
  show ?thesis
    unfolding tokenize_film_def structure_film Let_def sum.case
    apply (simp only: create_base_tokenization_def tokenization.simps fill_from_empty [OF d])
    apply (intro exI)
    apply (rule refl)
    done
qed


lemma animation_shape:
  "\<exists>mult ca. tokenize_animation self rnd now cid an =
     Inr ((create_base_tokenization self now cid ''animation'' an)
            \<lparr>token_categories :=
               map (\<lambda>(k, d). (k, specialized_entry self d (get_originality_score an / 100) (mult k)))
                 animation_structure,
             category_analysis := Some ca\<rparr>)"
proof -
  have d: "distinct (map fst animation_structure)" using wf_animation by (simp add: well_formed_def)
  show ?thesis
    unfolding tokenize_animation_def structure_animation Let_def sum.case
    apply (simp only: create_base_tokenization_def tokenization.simps fill_from_empty [OF d])
    apply (intro exI)
    apply (rule refl)
    done
qed

lemma screenplay_shape:
  "\<exists>mult ca. tokenize_screenplay self rnd now cid an =
     Inr ((create_base_tokenization self now cid ''screenplay'' an)
            \<lparr>token_categories :=
               map (\<lambda>(k, d). (k, specialized_entry self d (get_originality_score an / 100) (mult k)))
                 screenplay_structure,
             category_analysis := Some ca\<rparr>)"
proof -
  have d: "distinct (map fst screenplay_structure)" using wf_screenplay by (simp add: well_formed_def)
  show ?thesis
    unfolding tokenize_screenplay_def structure_screenplay Let_def sum.case
    apply (simp only: create_base_tokenization_def tokenization.simps fill_from_empty [OF d])
    apply (intro exI)
    apply (rule refl)
    done
qed

lemma book_writing_shape:
  "\<exists>mult ca. tokenize_book_writing self rnd now cid an =
     Inr ((create_base_tokenization self now cid ''book_writing'' an)
            \<lparr>token_categories :=
               map (\<lambda>(k, d). (k, specialized_entry self d (get_originality_score an / 100) (mult k)))
                 book_writing_structure,
             category_analysis := Some ca\<rparr>)"
proof -
  have d: "distinct (map fst book_writing_structure)" using wf_book_writing by (simp add: well_formed_def)
  show ?thesis
    unfolding tokenize_book_writing_def structure_book_writing Let_def sum.case
    apply (simp only: create_base_tokenization_def tokenization.simps fill_from_empty [OF d])
    apply (intro exI)
    apply (rule refl)
    done
qed

lemma digital_art_shape:
  "\<exists>mult ca. tokenize_digital_art self rnd now cid an =
     Inr ((create_base_tokenization self now cid ''digital_art'' an)
            \<lparr>token_categories :=
               map (\<lambda>(k, d). (k, specialized_entry self d (get_originality_score an / 100) (mult k)))
                 digital_art_structure,
             category_analysis := Some ca\<rparr>)"
proof -
  have d: "distinct (map fst digital_art_structure)" using wf_digital_art by (simp add: well_formed_def)
  show ?thesis
    unfolding tokenize_digital_art_def structure_digital_art Let_def sum.case
    apply (simp only: create_base_tokenization_def tokenization.simps fill_from_empty [OF d])
    apply (intro exI)
    apply (rule refl)
    done
qed

lemma video_games_shape:
  "\<exists>mult ca. tokenize_video_games self rnd now cid an =
     Inr ((create_base_tokenization self now cid ''video_games'' an)
            \<lparr>token_categories :=
               map (\<lambda>(k, d). (k, specialized_entry self d (get_originality_score an / 100) (mult k)))
                 video_games_structure,
             category_analysis := Some ca\<rparr>)"
proof -
  have d: "distinct (map fst video_games_structure)" using wf_video_games by (simp add: well_formed_def)
  show ?thesis
    unfolding tokenize_video_games_def structure_video_games Let_def sum.case
    apply (simp only: create_base_tokenization_def tokenization.simps fill_from_empty [OF d])
    apply (intro exI)
    apply (rule refl)
    done
qed

lemma generic_shape:
  assumes "get_category_tokenization_structure c = Inr s" and "well_formed s"
  shows "tokenize_generic self now cid an c =
     Inr ((create_base_tokenization self now cid c an)
            \<lparr>token_categories :=
               map (\<lambda>(k, d). (k, specialized_entry self d (get_originality_score an / 100) 1)) s,
             category_analysis := Some [(''content_category'', Str c),
                                        (''tokenization_method'', Str ''generic'')]\<rparr>)"
proof -
  have d: "distinct (map fst s)" using assms(2) by (simp add: well_formed_def)
  show ?thesis
    unfolding tokenize_generic_def assms(1) Let_def sum.case
    by (simp only: create_base_tokenization_def tokenization.simps fill_from_empty [OF d]
          generic_is_specialized)
qed

lemma tokenizer_for_known:
  "get_specialized_tokenizer self ''film'' = tokenize_film self"
  "get_specialized_tokenizer self ''animation'' = tokenize_animation self"
  "get_specialized_tokenizer self ''screenplay'' = tokenize_screenplay self"
  "get_specialized_tokenizer self ''book_writing'' = tokenize_book_writing self"
  "get_specialized_tokenizer self ''digital_art'' = tokenize_digital_art self"
  "get_specialized_tokenizer self ''video_games'' = tokenize_video_games self"
  "get_specialized_tokenizer self ''photography'' rnd now cid an =
     tokenize_generic self now cid an ''photography''"
  "get_specialized_tokenizer self ''music_composition'' rnd now cid an =
     tokenize_generic self now cid an ''music_composition''"
  "get_specialized_tokenizer self ''podcast_audio'' rnd now cid an =
     tokenize_generic self now cid an ''podcast_audio''"
  "get_specialized_tokenizer self ''software_code'' rnd now cid an =
     tokenize_generic self now cid an ''software_code''"
  by (simp_all add: get_specialized_tokenizer_def tokenizer_map_def)


lemma known_category_cases:
  assumes "c \<in> set (map fst CONTENT_CATEGORIES)"
  shows "c = ''film'' \<or> c = ''animation'' \<or> c = ''screenplay'' \<or> c = ''book_writing''
    \<or> c = ''digital_art'' \<or> c = ''photography'' \<or> c = ''music_composition''
    \<or> c = ''podcast_audio'' \<or> c = ''software_code'' \<or> c = ''video_games''"
  using assms unfolding category_keys
  by (simp only: list.set insert_iff empty_iff simp_thms)

lemma tokenizer_for_unknown:
  assumes "c \<notin> set (map fst CONTENT_CATEGORIES)"
  shows "get_specialized_tokenizer self c rnd now cid an = tokenize_generic self now cid an c"
proof -
  from assms have ne: "c \<noteq> ''film''" "c \<noteq> ''animation''" "c \<noteq> ''screenplay''"
    "c \<noteq> ''book_writing''" "c \<noteq> ''digital_art''" "c \<noteq> ''photography''"
    "c \<noteq> ''music_composition''" "c \<noteq> ''podcast_audio''" "c \<noteq> ''software_code''"
    "c \<noteq> ''video_games''"
    unfolding category_keys by (simp_all only: list.set insert_iff empty_iff simp_thms de_Morgan_disj)
  have "map_of (tokenizer_map self) c = None"
    unfolding tokenizer_map_def
    by (simp only: map_of.simps fun_upd_apply fst_conv snd_conv ne if_False)
  then show ?thesis
    by (simp only: get_specialized_tokenizer_def option.case)
qed


lemma generic_shape_ex:
  assumes "get_category_tokenization_structure c = Inr s" and "well_formed s"
  shows "\<exists>mult ca. tokenize_generic self now cid an c =
     Inr ((create_base_tokenization self now cid c an)
            \<lparr>token_categories :=
               map (\<lambda>(k, d). (k, specialized_entry self d (get_originality_score an / 100) (mult k))) s,
             category_analysis := Some ca\<rparr>)"
  apply (rule exI [of _ "\<lambda>k. 1"])
  apply (rule exI)
  apply (rule generic_shape [OF assms])
  done

lemma dispatch_shape:
  "\<exists>s mult ca. well_formed s \<and>
     get_category_tokenization_structure c = Inr s \<and>
     get_specialized_tokenizer SpecializedTokenizer c rnd now cid an =
       Inr ((create_base_tokenization SpecializedTokenizer now cid c an)
              \<lparr>token_categories :=
                 map (\<lambda>(k, d). (k, specialized_entry SpecializedTokenizer d
                                     (get_originality_score an / 100) (mult k))) s,
               category_analysis := Some ca\<rparr>)"
  (is "?P c")
proof (cases "c \<in> set (map fst CONTENT_CATEGORIES)")
  case True
  have 1: "?P ''film''"
    unfolding tokenizer_for_known using film_shape wf_film structure_film by blast
  have 2: "?P ''animation''"
    unfolding tokenizer_for_known using animation_shape wf_animation structure_animation by blast
  have 3: "?P ''screenplay''"
    unfolding tokenizer_for_known using screenplay_shape wf_screenplay structure_screenplay by blast
  have 4: "?P ''book_writing''"
    unfolding tokenizer_for_known using book_writing_shape wf_book_writing structure_book_writing by blast
  have 5: "?P ''digital_art''"
    unfolding tokenizer_for_known using digital_art_shape wf_digital_art structure_digital_art by blast
  have 6: "?P ''photography''"
    unfolding tokenizer_for_known
    using generic_shape_ex [OF structure_photography wf_photography] wf_photography structure_photography by blast
  have 7: "?P ''music_composition''"
    unfolding tokenizer_for_known
    using generic_shape_ex [OF structure_music_composition wf_music_composition] wf_music_composition
      structure_music_composition
    by blast
  have 8: "?P ''podcast_audio''"
    unfolding tokenizer_for_known
    using generic_shape_ex [OF structure_podcast_audio wf_podcast_audio] wf_podcast_audio structure_podcast_audio by blast
  have 9: "?P ''software_code''"
    unfolding tokenizer_for_known
    using generic_shape_ex [OF structure_software_code wf_software_code] wf_software_code structure_software_code by blast
  have 10: "?P ''video_games''"
    unfolding tokenizer_for_known using video_games_shape wf_video_games structure_video_games by blast
  from known_category_cases [OF True] show ?thesis
    by (elim disjE) (simp_all only: 1 2 3 4 5 6 7 8 9 10)
next
  case False
  show ?thesis unfolding tokenizer_for_unknown [OF False]
    using generic_shape_ex [OF structure_unknown [OF False] wf_digital_art] wf_digital_art
      structure_unknown [OF False]
    by blast
qed


lemma create_shape:
  "\<exists>s mult t. well_formed s \<and>
     get_category_tokenization_structure (resolve_category category fe) = Inr s \<and>
     create_specialized_tokenization rnd now cid an category fe = Inr t \<and>
     token_categories t =
       map (\<lambda>(k, d). (k, specialized_entry SpecializedTokenizer d
                           (get_originality_score an / 100) (mult k))) s \<and>
     total_tokens t = 1000 \<and>
     tz_total_value_usd t =
       Some (sum_list (map (\<lambda>(name, cat). total_value_usd cat) (token_categories t)))"
proof -
  obtain s mult ca where wf: "well_formed s"
    and st: "get_category_tokenization_structure (resolve_category category fe) = Inr s"
    and r: "get_specialized_tokenizer SpecializedTokenizer (resolve_category category fe) rnd now cid an =
       Inr ((create_base_tokenization SpecializedTokenizer now cid (resolve_category category fe) an)
              \<lparr>token_categories :=
                 map (\<lambda>(k, d). (k, specialized_entry SpecializedTokenizer d
                                     (get_originality_score an / 100) (mult k))) s,
               category_analysis := Some ca\<rparr>)"
    using dispatch_shape by blast
  show ?thesis
    apply (rule exI [of _ s])
    apply (rule exI [of _ mult])
    apply (simp add: create_specialized_tokenization_def Let_def r wf st)
    apply (simp add: create_base_tokenization_def SpecializedTokenizer_def)
    done
qed

lemma sum_counts:
  "sum_list (map (\<lambda>(k, d). 10 * percentage d) s) = 10 * sum_list (map (\<lambda>(k, d). percentage d) s)"
  by (induction s) auto

lemma counts_of_entries:
  "map (\<lambda>(name, cat). token_count cat)
     (map (\<lambda>(k, d). (k, specialized_entry SpecializedTokenizer d f (mult k))) s)
   = map (\<lambda>(k, d). 10 * percentage d) s"
  by (induction s) (auto simp: specialized_count)

lemma zero_entry:
  "token_value_usd (specialized_entry self d 0 m) = 0"
  "total_value_usd (specialized_entry self d 0 m) = 0"
  by (simp_all add: specialized_entry_def Let_def py_round_zero)

lemma zero_entries:
  "list_all (\<lambda>(name, cat). token_value_usd cat = 0 \<and> total_value_usd cat = 0)
     (map (\<lambda>(k, d). (k, specialized_entry self d 0 (mult k))) s)"
  by (induction s) (auto simp: zero_entry)

lemma zero_total:
  "sum_list (map (\<lambda>(name, cat). total_value_usd cat)
     (map (\<lambda>(k, d). (k, specialized_entry self d 0 (mult k))) s)) = 0"
  by (induction s) (auto simp: zero_entry)

lemma nonneg_counts:
  "list_all (\<lambda>(k, d). 0 \<le> percentage d) s \<Longrightarrow>
   list_all (\<lambda>(name, cat). 0 \<le> token_count cat)
     (map (\<lambda>(k, d). (k, specialized_entry SpecializedTokenizer d f (mult k))) s)"
  by (induction s) (auto simp: specialized_count)

lemma allocator_counts_nonneg:
  "\<exists>t. create_specialized_tokenization rnd now cid an category fe = Inr t
       \<and> list_all (\<lambda>(name, cat). 0 \<le> token_count cat) (token_categories t)"
proof -
  obtain s mult t where wf: "well_formed s"
    and r: "create_specialized_tokenization rnd now cid an category fe = Inr t"
    and tc: "token_categories t =
       map (\<lambda>(k, d). (k, specialized_entry SpecializedTokenizer d
                           (get_originality_score an / 100) (mult k))) s"
    using create_shape by blast
  have "list_all (\<lambda>(name, cat). 0 \<le> token_count cat) (token_categories t)"
    unfolding tc using wf by (intro nonneg_counts) (simp add: well_formed_def)
  with r show ?thesis by blast
qed

lemma resolve_given: "c \<noteq> [] \<Longrightarrow> resolve_category (Some c) fe = c"
  by (cases fe) (simp_all add: resolve_category_def)



lemma names_of_entries: "map fst (map (\<lambda>(k, d). (k, g k d)) s) = map fst s"
  by (induction s) auto





lemma unknown_allocation:
  assumes "c \<notin> set (map fst CONTENT_CATEGORIES)" and "c \<noteq> []"
  shows "\<exists>t. create_specialized_tokenization rnd now cid an (Some c) fe = Inr t
       \<and> content_category t = c
       \<and> map fst (token_categories t) = map fst digital_art_structure"
proof -
  let ?t = "(create_base_tokenization SpecializedTokenizer now cid c an)
            \<lparr>token_categories :=
               map (\<lambda>(k, d). (k, specialized_entry SpecializedTokenizer d
                                   (get_originality_score an / 100) 1)) digital_art_structure,
             category_analysis := Some [(''content_category'', Str c),
                                        (''tokenization_method'', Str ''generic'')]\<rparr>"
  let ?u = "?t\<lparr>tz_total_value_usd :=
                Some (sum_list (map (\<lambda>(name, cat). total_value_usd cat) (token_categories ?t)))\<rparr>"
  have r: "get_specialized_tokenizer SpecializedTokenizer c rnd now cid an = Inr ?t"
    unfolding tokenizer_for_unknown [OF assms(1)]
    by (rule generic_shape [OF structure_unknown [OF assms(1)] wf_digital_art])
  have top: "create_specialized_tokenization rnd now cid an (Some c) fe = Inr ?u"
    unfolding create_specialized_tokenization_def Let_def resolve_given [OF assms(2)] r
    by (simp only: sum.case)
  have cc: "content_category ?u = c"
    by (simp only: create_base_tokenization_def tokenization.simps)
  have "token_categories ?u =
      map (\<lambda>(k, d). (k, specialized_entry SpecializedTokenizer d (get_originality_score an / 100) 1))
        digital_art_structure"
    by (simp only: create_base_tokenization_def tokenization.simps)
  then have nm: "map fst (token_categories ?u) = map fst digital_art_structure"
    by (simp only: names_of_entries)
  show ?thesis
    by (intro exI [of _ ?u] conjI) (fact top cc nm)+
qed

subsection \<open>Scores and the best match\<close>

lemma pattern_keys:
  "map fst keyword_patterns =
     [''film'', ''screenplay'', ''music'', ''book_writing'', ''digital_art'', ''photography'',
      ''animation'', ''gaming'', ''software'']"
  by code_simp

lemma scores_keys: "map fst (category_scores tx ext) = map fst keyword_patterns"
  unfolding category_scores_def by (rule names_of_entries)

lemma max_by_score_in: "max_by_score x xs \<in> set (x # xs)"
  by (induction xs arbitrary: x) auto

lemma winner_has_pattern:
  assumes "category_scores tx ext = x # xs"
  shows "\<exists>wp. map_of keyword_patterns (fst (max_by_score x xs)) = Some wp"
proof -
  have "fst (max_by_score x xs) \<in> fst ` set (x # xs)"
    using max_by_score_in by (rule imageI)
  also have "fst ` set (x # xs) = set (map fst keyword_patterns)"
    using arg_cong [OF scores_keys [of tx ext], of set] by (simp add: assms)
  finally have "fst (max_by_score x xs) \<in> fst ` set keyword_patterns" by simp
  then show ?thesis
    by (cases "map_of keyword_patterns (fst (max_by_score x xs))")
       (simp_all add: map_of_eq_None_iff)
qed

lemma scores_nonempty: "category_scores tx ext \<noteq> []"
proof
  assume "category_scores tx ext = []"
  then have "map fst (category_scores tx ext) = []" by simp
  then show False unfolding scores_keys pattern_keys by simp
qed

lemma detect_cases:
  obtains (fallback) x xs where
      "category_scores (text_of f t) (lstrip_dot (lower e)) = x # xs"
      "snd (max_by_score x xs) < 3 / 10"
      "enhanced_auto_detect_category f e t =
         Inr \<lparr>detected_category = get_category_by_file_extension e,
              confidence = 85 / 100,
              detection_method = file_extension_fallback,
              detected_keywords = [],
              all_scores = x # xs\<rparr>"
  | (keyword) x xs wp where
      "category_scores (text_of f t) (lstrip_dot (lower e)) = x # xs"
      "3 / 10 \<le> snd (max_by_score x xs)"
      "map_of keyword_patterns (fst (max_by_score x xs)) = Some wp"
      "enhanced_auto_detect_category f e t =
         Inr \<lparr>detected_category = fst (max_by_score x xs),
              confidence = min (snd (max_by_score x xs) + 5 / 100) (98 / 100),
              detection_method = enhanced_keyword_analysis,
              detected_keywords = filter (\<lambda>kw. str_in kw (text_of f t)) (pattern_keywords wp),
              all_scores = x # xs\<rparr>"
proof -
  obtain x xs where s: "category_scores (text_of f t) (lstrip_dot (lower e)) = x # xs"
    using scores_nonempty [of "text_of f t" "lstrip_dot (lower e)"]
    by (cases "category_scores (text_of f t) (lstrip_dot (lower e))") auto
  obtain wp where wp: "map_of keyword_patterns (fst (max_by_score x xs)) = Some wp"
    using winner_has_pattern [OF s] by blast
  show thesis
  proof (cases "snd (max_by_score x xs) < 3 / 10")
    case True
    show thesis
      by (rule fallback [OF s True])
         (use True in \<open>simp add: enhanced_auto_detect_category_def find_best_match_def Let_def s\<close>)
  next
    case False
    then have ge: "3 / 10 \<le> snd (max_by_score x xs)" by simp
    show thesis
      by (rule keyword [OF s ge wp])
         (use False in \<open>simp add: enhanced_auto_detect_category_def find_best_match_def Let_def s wp\<close>)
  qed
qed

lemma confidence_bounds:
  "\<exists>r. enhanced_auto_detect_category f e t = Inr r \<and> 0 \<le> confidence r \<and> confidence r \<le> 98 / 100"
proof (cases rule: detect_cases [where f = f and e = e and t = t])
  case (fallback x xs)
  then show ?thesis by simp
next
  case (keyword x xs wp)
  then show ?thesis by (simp add: min_def)
qed

lemma match_none:
  "list_all (\<lambda>kw. \<not> str_in kw tx) kws \<Longrightarrow> match_keywords tx kws (m, s) = (m, s)"
  by (induction kws) auto

lemma score_without_keywords:
  assumes "list_all (\<lambda>kw. \<not> str_in kw tx) (pattern_keywords pd)"
  shows "category_score tx ext cid pd = (if ext \<in> set (pattern_file_types pd) then 2 / 5 else 0)"
  by (simp add: category_score_def match_none [OF assms])

lemma scores_without_keywords:
  assumes "no_keywords tx"
  shows "category_scores tx ext =
     map (\<lambda>(cid, pd). (cid, if ext \<in> set (pattern_file_types pd) then 2 / 5 else 0)) keyword_patterns"
  unfolding category_scores_def
proof (rule map_cong [OF refl])
  fix p assume p: "p \<in> set keyword_patterns"
  obtain cid pd where eq: "p = (cid, pd)" by (cases p)
  from assms p eq have "list_all (\<lambda>kw. \<not> str_in kw tx) (pattern_keywords pd)"
    by (auto simp: no_keywords_def list_all_iff)
  then show "(case p of (category_id, pd) \<Rightarrow> (category_id, category_score tx ext category_id pd))
      = (case p of (cid, pd) \<Rightarrow> (cid, if ext \<in> set (pattern_file_types pd) then 2 / 5 else 0))"
    by (simp add: eq score_without_keywords)
qed

lemma max_by_score_first: "\<forall>y \<in> set xs. snd y \<le> snd x \<Longrightarrow> max_by_score x xs = x"
  by (induction xs) auto



lemma first_category_none:
  "list_all (\<lambda>(category_id, cd). ext \<notin> set (file_types cd)) cats \<Longrightarrow>
   first_category_with ext cats = ''digital_art''"
  by (induction cats) auto






section \<open>Properties of the allocator\<close>

text \<open>
  C1. Whatever the category (known, unknown, empty or absent), the analysis (hence every
  originality score, inside \<open>[0, 100]\<close> or not), the random draws and the clock, the
  allocator returns a result; its budget is 1000; the token count of each bucket of the
  category's rights structure is \<open>floor(1000 * percentage / 100)\<close>; and the token counts
  add up to at most the budget.
\<close>

theorem C1_token_counts_within_budget:
  "\<exists>t s. create_specialized_tokenization rnd now cid an category fe = Inr t
       \<and> get_category_tokenization_structure (resolve_category category fe) = Inr s
       \<and> total_tokens t = 1000
       \<and> token_counts t = map (\<lambda>(name, d). \<lfloor>rat_of_int (1000 * percentage d) / 100\<rfloor>) s
       \<and> sum_list (token_counts t) \<le> total_tokens t"
proof -
  obtain s mult t where wf: "well_formed s"
    and st: "get_category_tokenization_structure (resolve_category category fe) = Inr s"
    and r: "create_specialized_tokenization rnd now cid an category fe = Inr t"
    and tc: "token_categories t =
       map (\<lambda>(k, d). (k, specialized_entry SpecializedTokenizer d
                           (get_originality_score an / 100) (mult k))) s"
    and tt: "total_tokens t = 1000"
    using create_shape by blast
  have cs: "token_counts t = map (\<lambda>(k, d). 10 * percentage d) s"
    by (simp only: token_counts_def tc counts_of_entries)
  have fl: "\<And>p. \<lfloor>rat_of_int (1000 * p) / 100\<rfloor> = 10 * p"
  proof -
    fix p :: int
    have "rat_of_int (1000 * p) / 100 = rat_of_int (10 * p)" by simp
    then show "\<lfloor>rat_of_int (1000 * p) / 100\<rfloor> = 10 * p" by (simp only: floor_of_int)
  qed
  have cf: "token_counts t = map (\<lambda>(name, d). \<lfloor>rat_of_int (1000 * percentage d) / 100\<rfloor>) s"
    unfolding cs fl ..
  have "sum_list (token_counts t) = 10 * sum_list (map (\<lambda>(k, d). percentage d) s)"
    by (simp only: cs sum_counts)
  also have "\<dots> = 1000" using wf by (simp add: well_formed_def)
  finally have le: "sum_list (token_counts t) \<le> total_tokens t" using tt by simp
  show ?thesis
    by (intro exI [of _ t] exI [of _ s] conjI) (fact r st tt cf le)+
qed





text \<open>
  C5. When the analysis carries \<open>originality_score = 0\<close>, every bucket of the result has
  unit value 0 and total value 0, and so has the result as a whole, for every category
  and whatever the random draws are.
\<close>

theorem C5_zero_originality:
  assumes "an ''originality_score'' = Some 0"
  shows "\<exists>t. create_specialized_tokenization rnd now cid an category fe = Inr t
       \<and> token_categories t \<noteq> []
       \<and> list_all (\<lambda>(name, cat). token_value_usd cat = 0 \<and> total_value_usd cat = 0)
           (token_categories t)
       \<and> tz_total_value_usd t = Some 0"
proof -
  have z: "get_originality_score an / 100 = 0"
    using assms by (simp add: get_originality_score_def)
  obtain s mult t where wf: "well_formed s"
    and r: "create_specialized_tokenization rnd now cid an category fe = Inr t"
    and tc: "token_categories t =
       map (\<lambda>(k, d). (k, specialized_entry SpecializedTokenizer d
                           (get_originality_score an / 100) (mult k))) s"
    and tv: "tz_total_value_usd t =
       Some (sum_list (map (\<lambda>(name, cat). total_value_usd cat) (token_categories t)))"
    using create_shape by blast
  have ne: "token_categories t \<noteq> []" using wf by (simp add: tc well_formed_def)
  have za: "list_all (\<lambda>(name, cat). token_value_usd cat = 0 \<and> total_value_usd cat = 0)
           (token_categories t)"
    unfolding tc z by (rule zero_entries)
  have zt: "tz_total_value_usd t = Some 0"
    unfolding tv tc z by (simp only: zero_total)
  from r ne za zt show ?thesis by blast
qed

theorem C5_zero_originality_witness:
  "\<exists>t. create_specialized_tokenization (\<lambda>k. 1 / 2) 0 ''id1'' [''originality_score'' \<mapsto> 0]
          (Some ''film'') None = Inr t
       \<and> token_categories t \<noteq> []
       \<and> list_all (\<lambda>(name, cat). token_value_usd cat = 0 \<and> total_value_usd cat = 0)
           (token_categories t)
       \<and> tz_total_value_usd t = Some 0"
  using C5_zero_originality [of "[''originality_score'' \<mapsto> 0]" "\<lambda>k. 1 / 2" 0 "''id1''" "Some ''film''" None]
  by simp





section \<open>Properties of the classifier\<close>

text \<open>
  C2, as the code has it. When no keyword occurs in the text and the normalised
  extension is in no extension list (as for \<open>clip.xyz\<close>), every score is 0, the best
  score is below 0.3, and the classifier returns \<open>digital_art\<close> with confidence 0.85 and
  method \<open>file_extension_fallback\<close>. The result with confidence 0.75 and method
  \<open>default_fallback\<close> is what the code returns for an empty score table; the score table
  has one entry for each of the nine keyword patterns, so it is never empty and no call
  returns \<open>default_fallback\<close>.
\<close>

theorem C2_unknown_extension:
  assumes "no_keywords (text_of filename content_title)"
    and "unknown_extension (lstrip_dot (lower file_extension))"
  shows "enhanced_auto_detect_category filename file_extension content_title =
           Inr \<lparr>detected_category = ''digital_art'',
                confidence = 85 / 100,
                detection_method = file_extension_fallback,
                detected_keywords = [],
                all_scores = map (\<lambda>(cid, pd). (cid, 0)) keyword_patterns\<rparr>
       \<and> find_best_match [] tx' fe' =
           Inr \<lparr>detected_category = ''digital_art'',
                confidence = 75 / 100,
                detection_method = default_fallback,
                detected_keywords = [],
                all_scores = []\<rparr>
       \<and> category_scores tx' ext' \<noteq> []
       \<and> (case enhanced_auto_detect_category filename' file_extension' content_title' of
             Inl err \<Rightarrow> False
           | Inr r \<Rightarrow> detection_method r \<noteq> default_fallback)"
proof -
  let ?tx = "text_of filename content_title"
  let ?ext = "lstrip_dot (lower file_extension)"
  let ?scores = "map (\<lambda>(cid, pd). (cid, 0::rat)) keyword_patterns"
  have rej: "\<And>cid pd. (cid, pd) \<in> set keyword_patterns \<Longrightarrow> ?ext \<notin> set (pattern_file_types pd)"
    using assms(2) by (auto simp: unknown_extension_def list_all_iff)
  have "category_scores ?tx ?ext =
      map (\<lambda>(cid, pd). (cid, if ?ext \<in> set (pattern_file_types pd) then 2 / 5 else 0)) keyword_patterns"
    by (rule scores_without_keywords [OF assms(1)])
  also have "\<dots> = ?scores"
    by (rule map_cong [OF refl]) (auto dest: rej)
  finally have sc: "category_scores ?tx ?ext = ?scores" .
  have fb: "get_category_by_file_extension file_extension = ''digital_art''"
    unfolding get_category_by_file_extension_def
    using assms(2) by (intro first_category_none) (simp add: unknown_extension_def)
  have first: "enhanced_auto_detect_category filename file_extension content_title =
           Inr \<lparr>detected_category = ''digital_art'', confidence = 85 / 100,
                detection_method = file_extension_fallback, detected_keywords = [],
                all_scores = ?scores\<rparr>"
  proof (cases rule: detect_cases [where f = filename and e = file_extension and t = content_title])
    case (fallback x xs)
    then show ?thesis by (simp add: fb sc)
  next
    case (keyword x xs wp)
    have "\<forall>y \<in> set xs. snd y \<le> snd x"
      using keyword(1) sc by auto
    then have "max_by_score x xs = x" by (rule max_by_score_first)
    moreover have "snd x = 0" using keyword(1) sc by auto
    ultimately show ?thesis using keyword(2) by simp
  qed
  have second: "find_best_match [] tx' fe' =
           Inr \<lparr>detected_category = ''digital_art'', confidence = 75 / 100,
                detection_method = default_fallback, detected_keywords = [], all_scores = []\<rparr>"
    by (simp add: find_best_match_def)
  have third: "category_scores tx' ext' \<noteq> []" by (rule scores_nonempty)
  have fourth: "(case enhanced_auto_detect_category filename' file_extension' content_title' of
             Inl err \<Rightarrow> False
           | Inr r \<Rightarrow> detection_method r \<noteq> default_fallback)"
    by (cases rule: detect_cases [where f = filename' and e = file_extension' and t = content_title'])
       simp_all
  from first second third fourth show ?thesis by (intro conjI)
qed

theorem C2_unknown_extension_witness:
  "enhanced_auto_detect_category ''clip.xyz'' ''xyz'' '''' =
           Inr \<lparr>detected_category = ''digital_art'',
                confidence = 85 / 100,
                detection_method = file_extension_fallback,
                detected_keywords = [],
                all_scores = map (\<lambda>(cid, pd). (cid, 0)) keyword_patterns\<rparr>
       \<and> find_best_match [] ''clip.xyz'' ''xyz'' =
           Inr \<lparr>detected_category = ''digital_art'',
                confidence = 75 / 100,
                detection_method = default_fallback,
                detected_keywords = [],
                all_scores = []\<rparr>
       \<and> category_scores ''clip.xyz'' ''xyz'' \<noteq> []
       \<and> (case enhanced_auto_detect_category ''clip.xyz'' ''xyz'' '''' of
             Inl err \<Rightarrow> False
           | Inr r \<Rightarrow> detection_method r \<noteq> default_fallback)"
proof -
  have h1: "no_keywords (text_of ''clip.xyz'' '''')" by code_simp
  have h2: "unknown_extension (lstrip_dot (lower ''xyz''))" by code_simp
  show ?thesis by (rule C2_unknown_extension [OF h1 h2])
qed

text \<open>
  The scenario of C2: \<open>clip.xyz\<close> is classified with confidence 0.85 by
  \<open>file_extension_fallback\<close>, not with 0.75 by \<open>default_fallback\<close>.
\<close>

theorem C2_default_fallback_counterexample:
  "enhanced_auto_detect_category ''clip.xyz'' ''xyz'' '''' =
       Inr \<lparr>detected_category = ''digital_art'', confidence = 85 / 100,
            detection_method = file_extension_fallback, detected_keywords = [],
            all_scores = [(''film'', 0), (''screenplay'', 0), (''music'', 0),
              (''book_writing'', 0), (''digital_art'', 0), (''photography'', 0),
              (''animation'', 0), (''gaming'', 0), (''software'', 0)]\<rparr>
   \<and> (85 / 100 :: rat) \<noteq> 75 / 100
   \<and> file_extension_fallback \<noteq> default_fallback"
  by code_simp




text \<open>
  C6. The file \<open>my_screenplay_draft.pdf\<close> with extension \<open>pdf\<close> and title
  \<open>Act One Dialogue\<close> is classified as \<open>screenplay\<close> by keyword analysis: the keywords
  \<open>screenplay\<close>, \<open>dialogue\<close> and \<open>act\<close> are found, \<open>pdf\<close> is in the extension list
  of \<open>screenplay\<close>, the score is capped at 1 and the confidence is 0.98, which is at
  least 0.3.
\<close>

theorem C6_screenplay_scenario:
  "\<exists>r. enhanced_auto_detect_category ''my_screenplay_draft.pdf'' ''pdf'' ''Act One Dialogue'' = Inr r
       \<and> detected_category r = ''screenplay''
       \<and> 3 / 10 \<le> confidence r
       \<and> confidence r = 98 / 100
       \<and> detection_method r = enhanced_keyword_analysis
       \<and> detected_keywords r = [''screenplay'', ''dialogue'', ''act'']
       \<and> map_of (all_scores r) ''screenplay'' = Some 1
       \<and> map_option (\<lambda>pd. ''pdf'' \<in> set (pattern_file_types pd))
            (map_of keyword_patterns ''screenplay'') = Some True"
proof -
  have "enhanced_auto_detect_category ''my_screenplay_draft.pdf'' ''pdf'' ''Act One Dialogue'' =
    Inr \<lparr>detected_category = ''screenplay'', confidence = 98 / 100,
         detection_method = enhanced_keyword_analysis,
         detected_keywords = [''screenplay'', ''dialogue'', ''act''],
         all_scores = [(''film'', 0), (''screenplay'', 1), (''music'', 0),
           (''book_writing'', 2 / 5), (''digital_art'', 0), (''photography'', 0),
           (''animation'', 0), (''gaming'', 0), (''software'', 0)]\<rparr>"
    by code_simp
  moreover have "map_option (\<lambda>pd. ''pdf'' \<in> set (pattern_file_types pd))
            (map_of keyword_patterns ''screenplay'') = Some True"
    by code_simp
  ultimately show ?thesis by simp
qed

text \<open>
  C10. The keyword table names three categories, \<open>music\<close>, \<open>gaming\<close> and \<open>software\<close>,
  that are not keys of \<open>CONTENT_CATEGORIES\<close>, and the keyword path returns them:
  \<open>song.mp3\<close> is classified as \<open>music\<close>, \<open>game.exe\<close> as \<open>gaming\<close>, \<open>app.dmg\<close> as
  \<open>software\<close>. For each of these ids the allocator uses the rights structure of
  \<open>digital_art\<close>, which differs from those of \<open>music_composition\<close>, \<open>video_games\<close> and
  \<open>software_code\<close>; an allocation for \<open>music\<close> keeps the id and holds the buckets of
  \<open>digital_art\<close>.
\<close>

theorem C10_classifier_ids_outside_table:
  "(\<exists>r. enhanced_auto_detect_category ''song.mp3'' ''mp3'' '''' = Inr r
        \<and> detected_category r = ''music'' \<and> detection_method r = enhanced_keyword_analysis)
   \<and> (\<exists>r. enhanced_auto_detect_category ''game.exe'' ''exe'' '''' = Inr r
        \<and> detected_category r = ''gaming'' \<and> detection_method r = enhanced_keyword_analysis)
   \<and> (\<exists>r. enhanced_auto_detect_category ''app.dmg'' ''dmg'' '''' = Inr r
        \<and> detected_category r = ''software'' \<and> detection_method r = enhanced_keyword_analysis)
   \<and> ''music'' \<notin> set (map fst CONTENT_CATEGORIES)
   \<and> ''gaming'' \<notin> set (map fst CONTENT_CATEGORIES)
   \<and> ''software'' \<notin> set (map fst CONTENT_CATEGORIES)
   \<and> get_category_tokenization_structure ''music'' = Inr digital_art_structure
   \<and> get_category_tokenization_structure ''gaming'' = Inr digital_art_structure
   \<and> get_category_tokenization_structure ''software'' = Inr digital_art_structure
   \<and> get_category_tokenization_structure ''music_composition'' = Inr music_composition_structure
   \<and> get_category_tokenization_structure ''video_games'' = Inr video_games_structure
   \<and> get_category_tokenization_structure ''software_code'' = Inr software_code_structure
   \<and> digital_art_structure \<noteq> music_composition_structure
   \<and> digital_art_structure \<noteq> video_games_structure
   \<and> digital_art_structure \<noteq> software_code_structure
   \<and> (\<exists>t. create_specialized_tokenization rnd now cid an (Some ''music'') fe = Inr t
        \<and> content_category t = ''music''
        \<and> map fst (token_categories t) = map fst digital_art_structure)"
proof -
  have m: "enhanced_auto_detect_category ''song.mp3'' ''mp3'' '''' =
      Inr \<lparr>detected_category = ''music'', confidence = 82 / 100,
           detection_method = enhanced_keyword_analysis, detected_keywords = [''song''],
           all_scores = [(''film'', 0), (''screenplay'', 0), (''music'', 77 / 100),
             (''book_writing'', 0), (''digital_art'', 0), (''photography'', 0),
             (''animation'', 0), (''gaming'', 0), (''software'', 0)]\<rparr>"
    by code_simp
  have g: "enhanced_auto_detect_category ''game.exe'' ''exe'' '''' =
      Inr \<lparr>detected_category = ''gaming'', confidence = 77 / 100,
           detection_method = enhanced_keyword_analysis, detected_keywords = [''game''],
           all_scores = [(''film'', 0), (''screenplay'', 0), (''music'', 0),
             (''book_writing'', 0), (''digital_art'', 0), (''photography'', 0),
             (''animation'', 0), (''gaming'', 72 / 100), (''software'', 2 / 5)]\<rparr>"
    by code_simp
  have s: "enhanced_auto_detect_category ''app.dmg'' ''dmg'' '''' =
      Inr \<lparr>detected_category = ''software'', confidence = 75 / 100,
           detection_method = enhanced_keyword_analysis, detected_keywords = [''app''],
           all_scores = [(''film'', 0), (''screenplay'', 0), (''music'', 0),
             (''book_writing'', 0), (''digital_art'', 0), (''photography'', 0),
             (''animation'', 0), (''gaming'', 0), (''software'', 70 / 100)]\<rparr>"
    by code_simp
  have km: "''music'' \<notin> set (map fst CONTENT_CATEGORIES)"
    and kg: "''gaming'' \<notin> set (map fst CONTENT_CATEGORIES)"
    and ks: "''software'' \<notin> set (map fst CONTENT_CATEGORIES)"
    unfolding category_keys by simp_all
  have d1: "digital_art_structure \<noteq> music_composition_structure" by code_simp
  have d2: "digital_art_structure \<noteq> video_games_structure" by code_simp
  have d3: "digital_art_structure \<noteq> software_code_structure" by code_simp
  have ne: "''music'' \<noteq> []" by simp
  have em: "\<exists>r. enhanced_auto_detect_category ''song.mp3'' ''mp3'' '''' = Inr r
        \<and> detected_category r = ''music'' \<and> detection_method r = enhanced_keyword_analysis"
    unfolding m by simp
  have eg: "\<exists>r. enhanced_auto_detect_category ''game.exe'' ''exe'' '''' = Inr r
        \<and> detected_category r = ''gaming'' \<and> detection_method r = enhanced_keyword_analysis"
    unfolding g by simp
  have es: "\<exists>r. enhanced_auto_detect_category ''app.dmg'' ''dmg'' '''' = Inr r
        \<and> detected_category r = ''software'' \<and> detection_method r = enhanced_keyword_analysis"
    unfolding s by simp
  show ?thesis
    by (intro conjI)
       (fact em eg es km kg ks structure_unknown [OF km] structure_unknown [OF kg]
          structure_unknown [OF ks] structure_music_composition structure_video_games
          structure_software_code d1 d2 d3 unknown_allocation [OF km ne])+
qed

section \<open>Ranges of the results\<close>

text \<open>
  C7. Every call of the classifier returns a result whose confidence lies between 0
  and 0.98, and every allocation returns a result in which the token count of every
  bucket, an integer, is not negative; this holds for every category, analysis (hence
  every originality score), draw and clock.
\<close>

theorem C7_confidence_and_token_count_ranges:
  "(\<exists>r. enhanced_auto_detect_category filename file_extension content_title = Inr r
        \<and> 0 \<le> confidence r \<and> confidence r \<le> 98 / 100)
   \<and> (\<exists>t. create_specialized_tokenization rnd now cid an category fe = Inr t
        \<and> list_all (\<lambda>(name, cat). 0 \<le> token_count cat) (token_categories t))"
  using confidence_bounds allocator_counts_nonneg by (rule conjI)

end
